theory Spec2Isabelle
  imports Main "HOL-Library.Sublist"
begin

section \<open>Python strings\<close>

text \<open>
  Python's \<open>str\<close> is modelled by \<open>string\<close>, restricted to ASCII text: wherever the
  source depends on characters beyond ASCII (Unicode case mapping, UTF-8 encoding and
  decoding of percent escapes, NFKC normalisation) or on \<open>ipaddress\<close> validation of a
  bracketed host, the model answers \<open>Inl NotModelled\<close> instead of a value. Exceptions of
  the source are values: \<open>Inl ValueError\<close> is the \<open>ValueError\<close> raised by
  \<open>urllib.parse.urlsplit\<close>.
\<close>

datatype error = ValueError | NotModelled

definition ord :: "char \<Rightarrow> nat" where
  "ord c = of_char c"

definition isascii :: "string \<Rightarrow> bool" where
  "isascii s = list_all (\<lambda>c. ord c < 128) s"

definition isalpha :: "char \<Rightarrow> bool" where
  "isalpha c = ((65 \<le> ord c \<and> ord c \<le> 90) \<or> (97 \<le> ord c \<and> ord c \<le> 122))"

definition isdigit :: "char \<Rightarrow> bool" where
  "isdigit c = (48 \<le> ord c \<and> ord c \<le> 57)"

definition lower_char :: "char \<Rightarrow> char" where
  "lower_char c = (if 65 \<le> ord c \<and> ord c \<le> 90 then char_of (ord c + 32) else c)"

definition lower :: "string \<Rightarrow> string" where
  "lower s = map lower_char s"

definition startswith :: "string \<Rightarrow> string \<Rightarrow> bool" where
  "startswith s p = (take (length p) s = p)"

definition endswith :: "string \<Rightarrow> string \<Rightarrow> bool" where
  "endswith s p = (length p \<le> length s \<and> drop (length s - length p) s = p)"

text \<open>\<open>s.lstrip(c)\<close> for one character.\<close>

definition lstrip :: "char \<Rightarrow> string \<Rightarrow> string" where
  "lstrip c s = dropWhile (\<lambda>x. x = c) s"

text \<open>\<open>sub in s\<close> for strings.\<close>

fun contains :: "string \<Rightarrow> string \<Rightarrow> bool" where
  "contains [] sub = (sub = [])"
| "contains (c # cs) sub = (startswith (c # cs) sub \<or> contains cs sub)"

text \<open>\<open>s.split(c)\<close> for a one-character separator: never an empty list.\<close>

fun split :: "char \<Rightarrow> string \<Rightarrow> string list" where
  "split c [] = [[]]"
| "split c (x # xs) =
     (if x = c then [] # split c xs
      else (case split c xs of [] \<Rightarrow> [[x]] | p # ps \<Rightarrow> (x # p) # ps))"

text \<open>\<open>s.split(c, 1)\<close> and \<open>s.partition(c)\<close>, as the pair before and after the first \<open>c\<close>
  (everything and nothing when \<open>c\<close> does not occur).\<close>

definition split1 :: "char \<Rightarrow> string \<Rightarrow> string \<times> string" where
  "split1 c s = (takeWhile (\<lambda>x. x \<noteq> c) s, drop 1 (dropWhile (\<lambda>x. x \<noteq> c) s))"

text \<open>\<open>c.join(parts)\<close>.\<close>

fun join :: "char \<Rightarrow> string list \<Rightarrow> string" where
  "join c [] = []"
| "join c [p] = p"
| "join c (p # q # ps) = p @ c # join c (q # ps)"

section \<open>urllib.parse (CPython 3.11)\<close>

definition uses_relative :: "string list" where
  "uses_relative = ['''', ''ftp'', ''http'', ''gopher'', ''nntp'', ''imap'',
     ''wais'', ''file'', ''https'', ''shttp'', ''mms'',
     ''prospero'', ''rtsp'', ''rtsps'', ''rtspu'', ''sftp'',
     ''svn'', ''svn+ssh'', ''ws'', ''wss'']"

definition uses_netloc :: "string list" where
  "uses_netloc = ['''', ''ftp'', ''http'', ''gopher'', ''nntp'', ''telnet'',
     ''imap'', ''wais'', ''file'', ''mms'', ''https'', ''shttp'',
     ''snews'', ''prospero'', ''rtsp'', ''rtsps'', ''rtspu'', ''rsync'',
     ''svn'', ''svn+ssh'', ''sftp'', ''nfs'', ''git'', ''git+ssh'',
     ''ws'', ''wss'']"

definition uses_params :: "string list" where
  "uses_params = ['''', ''ftp'', ''hdl'', ''prospero'', ''http'', ''imap'',
     ''https'', ''shttp'', ''rtsp'', ''rtsps'', ''rtspu'', ''sip'',
     ''sips'', ''mms'', ''sftp'', ''tel'']"

definition scheme_chars :: "char \<Rightarrow> bool" where
  "scheme_chars c = (isalpha c \<or> isdigit c \<or> c \<in> set ''+-.'')"

text \<open>\<open>_WHATWG_C0_CONTROL_OR_SPACE\<close>: the characters 0 to 32.\<close>

definition c0_control_or_space :: "char \<Rightarrow> bool" where
  "c0_control_or_space c = (ord c \<le> 32)"

text \<open>\<open>_UNSAFE_URL_BYTES_TO_REMOVE\<close>: tab, carriage return, line feed.\<close>

definition unsafe_url_byte :: "char \<Rightarrow> bool" where
  "unsafe_url_byte c = (ord c = 9 \<or> ord c = 13 \<or> ord c = 10)"

text \<open>\<open>s.strip(_WHATWG_C0_CONTROL_OR_SPACE)\<close>.\<close>

definition strip_c0 :: "string \<Rightarrow> string" where
  "strip_c0 s = rev (dropWhile c0_control_or_space (rev (dropWhile c0_control_or_space s)))"

text \<open>\<open>_splitnetloc(url, 2)\<close>: the domain runs from index 2 to the first of \<open>/?#\<close>.\<close>

definition netloc_delim :: "char \<Rightarrow> bool" where
  "netloc_delim c = (c \<in> set ''/?#'')"

definition splitnetloc :: "string \<Rightarrow> string \<times> string" where
  "splitnetloc url =
     (takeWhile (\<lambda>c. \<not> netloc_delim c) (drop 2 url),
      dropWhile (\<lambda>c. \<not> netloc_delim c) (drop 2 url))"

text \<open>The scheme test of \<open>urlsplit\<close>: a colon at an index \<open>i > 0\<close>, a first character that
  is an ASCII letter, and only scheme characters before the colon.\<close>

definition has_scheme :: "string \<Rightarrow> bool" where
  "has_scheme url =
     (CHR '':'' \<in> set url \<and> takeWhile (\<lambda>c. c \<noteq> CHR '':'') url \<noteq> [] \<and>
      isalpha (hd url) \<and> list_all scheme_chars (takeWhile (\<lambda>c. c \<noteq> CHR '':'') url))"

text \<open>The tail of \<open>urlsplit\<close>: fragment and query are cut off the rest of the URL.\<close>

definition split_fragment_query :: "string \<Rightarrow> string \<times> string \<times> string" where
  "split_fragment_query url =
     (let (url1, fragment) = (if CHR ''#'' \<in> set url then split1 (CHR ''#'') url else (url, ''''));
          (url2, query) = (if CHR ''?'' \<in> set url1 then split1 (CHR ''?'') url1 else (url1, ''''))
      in (url2, query, fragment))"

text \<open>\<open>urlsplit(url, scheme)\<close> with \<open>allow_fragments=True\<close>; the result is
  \<open>(scheme, netloc, path, query, fragment)\<close>.\<close>

definition urlsplit :: "string \<Rightarrow> string \<Rightarrow> error + (string \<times> string \<times> string \<times> string \<times> string)" where
  "urlsplit url0 scheme0 =
     (if \<not> isascii url0 \<or> \<not> isascii scheme0 then Inl NotModelled
      else
        let url1 = filter (\<lambda>c. \<not> unsafe_url_byte c) (dropWhile c0_control_or_space url0);
            scheme1 = filter (\<lambda>c. \<not> unsafe_url_byte c) (strip_c0 scheme0);
            (scheme, url) =
              (if has_scheme url1
               then (lower (takeWhile (\<lambda>c. c \<noteq> CHR '':'') url1),
                     drop 1 (dropWhile (\<lambda>c. c \<noteq> CHR '':'') url1))
               else (scheme1, url1))
        in
          if take 2 url = ''//'' then
            (let (netloc, rest) = splitnetloc url in
               if (CHR ''['' \<in> set netloc \<and> CHR '']'' \<notin> set netloc) \<or>
                  (CHR '']'' \<in> set netloc \<and> CHR ''['' \<notin> set netloc)
               then Inl ValueError
               else if CHR ''['' \<in> set netloc \<and> CHR '']'' \<in> set netloc
               then Inl NotModelled
               else (let (p, q, f) = split_fragment_query rest in Inr (scheme, netloc, p, q, f)))
          else (let (p, q, f) = split_fragment_query url in Inr (scheme, '''', p, q, f)))"

record parse_result =
  scheme :: string
  netloc :: string
  path :: string
  params :: string
  query :: string
  fragment :: string

text \<open>\<open>_splitparams(url)\<close>, called only when \<open>';' in url\<close>.\<close>

definition splitparams :: "string \<Rightarrow> string \<times> string" where
  "splitparams url =
     (if CHR ''/'' \<in> set url then
        (let last_seg = rev (takeWhile (\<lambda>c. c \<noteq> CHR ''/'') (rev url));
             front = rev (dropWhile (\<lambda>c. c \<noteq> CHR ''/'') (rev url))
         in if CHR '';'' \<notin> set last_seg then (url, '''')
            else (front @ takeWhile (\<lambda>c. c \<noteq> CHR '';'') last_seg,
                  drop 1 (dropWhile (\<lambda>c. c \<noteq> CHR '';'') last_seg)))
      else split1 (CHR '';'') url)"

definition urlparse :: "string \<Rightarrow> string \<Rightarrow> error + parse_result" where
  "urlparse url scheme0 =
     (case urlsplit url scheme0 of
        Inl e \<Rightarrow> Inl e
      | Inr (sch, nl, u, q, f) \<Rightarrow>
          (let (u', ps) = (if sch \<in> set uses_params \<and> CHR '';'' \<in> set u
                           then splitparams u else (u, ''''))
           in Inr \<lparr>scheme = sch, netloc = nl, path = u', params = ps,
                    query = q, fragment = f\<rparr>))"

definition urlunsplit :: "string \<Rightarrow> string \<Rightarrow> string \<Rightarrow> string \<Rightarrow> string \<Rightarrow> string" where
  "urlunsplit sch nl url q f =
     (let url1 = (if nl \<noteq> [] \<or> (sch \<noteq> [] \<and> sch \<in> set uses_netloc) \<or> take 2 url = ''//''
                  then ''//'' @ nl @ (if url \<noteq> [] \<and> take 1 url \<noteq> ''/'' then ''/'' @ url else url)
                  else url);
          url2 = (if sch \<noteq> [] then sch @ '':'' @ url1 else url1);
          url3 = (if q \<noteq> [] then url2 @ ''?'' @ q else url2)
      in if f \<noteq> [] then url3 @ ''#'' @ f else url3)"

definition urlunparse :: "parse_result \<Rightarrow> string" where
  "urlunparse p =
     urlunsplit (scheme p) (netloc p)
       (if params p \<noteq> [] then path p @ '';'' @ params p else path p)
       (query p) (fragment p)"


text \<open>The loop of \<open>urljoin\<close> that resolves \<open>.\<close> and \<open>..\<close> segments; \<open>acc\<close> is
  \<open>resolved_path\<close>, and popping the empty list is ignored as the source's \<open>IndexError\<close>
  handler does.\<close>

fun resolve_segments :: "string list \<Rightarrow> string list \<Rightarrow> string list" where
  "resolve_segments acc [] = acc"
| "resolve_segments acc (seg # segs) =
     (if seg = ''..'' then resolve_segments (butlast acc) segs
      else if seg = ''.'' then resolve_segments acc segs
      else resolve_segments (acc @ [seg]) segs)"

text \<open>\<open>segments[1:-1] = filter(None, segments[1:-1])\<close>.\<close>

definition filter_inner :: "string list \<Rightarrow> string list" where
  "filter_inner segs =
     take 1 segs @ filter (\<lambda>s. s \<noteq> []) (butlast (drop 1 segs)) @
     (if length segs \<ge> 2 then [last segs] else [])"

text \<open>The path resolution at the end of \<open>urljoin\<close>: \<open>bpath\<close> is the base's path and
  \<open>pth\<close> the reference's.\<close>

definition resolve_path :: "string \<Rightarrow> string \<Rightarrow> string" where
  "resolve_path bpath pth =
     (let base_parts0 = split (CHR ''/'') bpath;
          base_parts = (if last base_parts0 \<noteq> [] then butlast base_parts0 else base_parts0);
          segments = (if take 1 pth = ''/'' then split (CHR ''/'') pth
                      else filter_inner (base_parts @ split (CHR ''/'') pth));
          resolved0 = resolve_segments [] segments;
          resolved_path = (if last segments = ''.'' \<or> last segments = ''..''
                           then resolved0 @ [[]] else resolved0);
          joined = join (CHR ''/'') resolved_path
      in if joined = [] then ''/'' else joined)"

text \<open>\<open>urljoin\<close> after both arguments are parsed.\<close>

definition urljoin_parsed :: "string \<Rightarrow> parse_result \<Rightarrow> parse_result \<Rightarrow> string" where
  "urljoin_parsed url b u =
     (if scheme u \<noteq> scheme b \<or> scheme u \<notin> set uses_relative then url
      else if scheme u \<in> set uses_netloc \<and> netloc u \<noteq> [] then urlunparse u
      else
        (let nl = (if scheme u \<in> set uses_netloc then netloc b else netloc u) in
           if path u = [] \<and> params u = [] then
             urlunparse (u\<lparr>netloc := nl, path := path b, params := params b,
                            query := (if query u = [] then query b else query u)\<rparr>)
           else urlunparse (u\<lparr>netloc := nl, path := resolve_path (path b) (path u)\<rparr>)))"

definition urljoin :: "string \<Rightarrow> string \<Rightarrow> error + string" where
  "urljoin base url =
     (if base = [] then Inr url
      else if url = [] then Inr base
      else
        (case urlparse base '''' of
           Inl e \<Rightarrow> Inl e
         | Inr b \<Rightarrow>
            (case urlparse url (scheme b) of
               Inl e \<Rightarrow> Inl e
             | Inr u \<Rightarrow> Inr (urljoin_parsed url b u))))"

subsection \<open>Percent escapes and query strings\<close>

definition hexval :: "char \<Rightarrow> nat option" where
  "hexval c =
     (if 48 \<le> ord c \<and> ord c \<le> 57 then Some (ord c - 48)
      else if 65 \<le> ord c \<and> ord c \<le> 70 then Some (ord c - 55)
      else if 97 \<le> ord c \<and> ord c \<le> 102 then Some (ord c - 87)
      else None)"

text \<open>One piece after a \<open>%\<close> in \<open>unquote_to_bytes\<close>: two hex digits are replaced by their
  byte, anything else keeps its \<open>%\<close> (the source's \<open>KeyError\<close> branch). A byte from 128 on
  would need UTF-8 decoding.\<close>

definition unquote_item :: "string \<Rightarrow> error + string" where
  "unquote_item item =
     (case item of
        a # b # rest \<Rightarrow>
          (case (hexval a, hexval b) of
             (Some x, Some y) \<Rightarrow>
               if 16 * x + y < 128 then Inr (char_of (16 * x + y) # rest) else Inl NotModelled
           | _ \<Rightarrow> Inr (CHR ''%'' # item))
      | _ \<Rightarrow> Inr (CHR ''%'' # item))"

fun unquote_items :: "string list \<Rightarrow> error + string" where
  "unquote_items [] = Inr []"
| "unquote_items (item # items) =
     (case unquote_item item of
        Inl e \<Rightarrow> Inl e
      | Inr s \<Rightarrow> (case unquote_items items of Inl e \<Rightarrow> Inl e | Inr r \<Rightarrow> Inr (s @ r)))"

definition unquote :: "string \<Rightarrow> error + string" where
  "unquote s =
     (if \<not> isascii s then Inl NotModelled
      else if CHR ''%'' \<notin> set s then Inr s
      else (case split (CHR ''%'') s of
              [] \<Rightarrow> Inr []
            | b0 # items \<Rightarrow>
                (case unquote_items items of Inl e \<Rightarrow> Inl e | Inr r \<Rightarrow> Inr (b0 @ r))))"

definition unquote_plus :: "string \<Rightarrow> error + string" where
  "unquote_plus s = unquote (map (\<lambda>c. if c = CHR ''+'' then CHR '' '' else c) s)"

text \<open>\<open>for x in xs: r.append(f(x))\<close> where \<open>f\<close> may raise.\<close>

fun map_err :: "('a \<Rightarrow> error + 'b) \<Rightarrow> 'a list \<Rightarrow> error + 'b list" where
  "map_err f [] = Inr []"
| "map_err f (x # xs) =
     (case f x of
        Inl e \<Rightarrow> Inl e
      | Inr y \<Rightarrow> (case map_err f xs of Inl e \<Rightarrow> Inl e | Inr ys \<Rightarrow> Inr (y # ys)))"

definition parse_pair :: "string \<Rightarrow> error + (string \<times> string)" where
  "parse_pair name_value =
     (let (name, val) = split1 (CHR ''='') name_value in
        case unquote_plus name of
          Inl e \<Rightarrow> Inl e
        | Inr n \<Rightarrow> (case unquote_plus val of Inl e \<Rightarrow> Inl e | Inr v \<Rightarrow> Inr (n, v)))"

text \<open>\<open>parse_qsl(qs, keep_blank_values=True)\<close>.\<close>

definition parse_qsl :: "string \<Rightarrow> error + (string \<times> string) list" where
  "parse_qsl qs =
     (if qs = [] then Inr []
      else map_err parse_pair (filter (\<lambda>nv. nv \<noteq> []) (split (CHR ''&'') qs)))"

text \<open>\<open>_ALWAYS_SAFE\<close>: letters, digits and \<open>_.-~\<close>.\<close>

definition always_safe :: "char \<Rightarrow> bool" where
  "always_safe c = (isalpha c \<or> isdigit c \<or> c \<in> set ''_.-~'')"

definition hexdigit :: "nat \<Rightarrow> char" where
  "hexdigit n = ''0123456789ABCDEF'' ! (n mod 16)"

text \<open>\<open>_Quoter.__missing__\<close>: a safe byte stays, any other becomes \<open>%XX\<close>.\<close>

definition quoter :: "string \<Rightarrow> char \<Rightarrow> string" where
  "quoter safe c =
     (if always_safe c \<or> c \<in> set safe then [c]
      else [CHR ''%'', hexdigit (ord c div 16), hexdigit (ord c mod 16)])"

text \<open>\<open>quote(string, safe)\<close>; a character beyond ASCII would need UTF-8 encoding.\<close>

definition quote :: "string \<Rightarrow> string \<Rightarrow> error + string" where
  "quote s safe = (if \<not> isascii s then Inl NotModelled else Inr (concat (map (quoter safe) s)))"

definition quote_plus :: "string \<Rightarrow> error + string" where
  "quote_plus s =
     (if CHR '' '' \<notin> set s then quote s ''''
      else (case quote s '' '' of
              Inl e \<Rightarrow> Inl e
            | Inr q \<Rightarrow> Inr (map (\<lambda>c. if c = CHR '' '' then CHR ''+'' else c) q)))"

definition encode_pair :: "string \<times> string \<Rightarrow> error + string" where
  "encode_pair kv =
     (case quote_plus (fst kv) of
        Inl e \<Rightarrow> Inl e
      | Inr k \<Rightarrow> (case quote_plus (snd kv) of Inl e \<Rightarrow> Inl e | Inr v \<Rightarrow> Inr (k @ ''='' @ v)))"

text \<open>\<open>urlencode(query)\<close> for a list of pairs of strings.\<close>

definition urlencode :: "(string \<times> string) list \<Rightarrow> error + string" where
  "urlencode query_pairs =
     (case map_err encode_pair query_pairs of
        Inl e \<Rightarrow> Inl e
      | Inr l \<Rightarrow> Inr (join (CHR ''&'') l))"

section \<open>scraper/utils.py\<close>

definition TRACKING_PARAMS :: "string list" where
  "TRACKING_PARAMS = [''utm_source'', ''utm_medium'', ''utm_campaign'', ''utm_term'',
     ''utm_content'', ''gclid'', ''fbclid'', ''mc_eid'']"

definition strip_fragment_and_tracking :: "string \<Rightarrow> error + string" where
  "strip_fragment_and_tracking url =
     (case urlparse url '''' of
        Inl e \<Rightarrow> Inl e
      | Inr parsed \<Rightarrow>
          (case parse_qsl (query parsed) of
             Inl e \<Rightarrow> Inl e
           | Inr pairs \<Rightarrow>
               (case urlencode (filter (\<lambda>kv. lower (fst kv) \<notin> set TRACKING_PARAMS) pairs) of
                  Inl e \<Rightarrow> Inl e
                | Inr q \<Rightarrow> Inr (urlunparse (parsed\<lparr>fragment := '''', query := q\<rparr>)))))"

text \<open>\<open>re.match(r"^(javascript:|mailto:|tel:)", href, re.I)\<close> on ASCII text.\<close>

definition ignored_scheme :: "string \<Rightarrow> bool" where
  "ignored_scheme href =
     (startswith (lower href) ''javascript:'' \<or> startswith (lower href) ''mailto:'' \<or>
      startswith (lower href) ''tel:'')"

definition normalize_url :: "string \<Rightarrow> string \<Rightarrow> error + string option" where
  "normalize_url base_url href =
     (if href = [] then Inr None
      else if \<not> isascii href then Inl NotModelled
      else if ignored_scheme href then Inr None
      else (case urljoin base_url href of
              Inl e \<Rightarrow> Inl e
            | Inr absolute \<Rightarrow>
                (case strip_fragment_and_tracking absolute of
                   Inl e \<Rightarrow> Inl e
                 | Inr n \<Rightarrow> Inr (Some n))))"

text \<open>The loop of \<open>is_allowed_domain\<close> over the allowlist; \<open>nl\<close> is the lowered netloc.\<close>

fun domain_matches :: "string \<Rightarrow> string list \<Rightarrow> error + bool" where
  "domain_matches nl [] = Inr False"
| "domain_matches nl (domain # domains) =
     (if \<not> isascii domain then Inl NotModelled
      else
        let d = lstrip (CHR ''.'') (lower domain) in
          if nl = d \<or> endswith nl (''.'' @ d) then Inr True
          else domain_matches nl domains)"

definition is_allowed_domain :: "string \<Rightarrow> string list \<Rightarrow> error + bool" where
  "is_allowed_domain url allowed_domains =
     (if allowed_domains = [] then Inr True
      else (case urlparse url '''' of
              Inl e \<Rightarrow> Inl e
            | Inr parsed \<Rightarrow> domain_matches (lower (netloc parsed)) allowed_domains))"

section \<open>The HTTP client\<close>

text \<open>
  A response of \<open>httpx\<close>: \<open>headers\<close> maps a header name in lower case to the value that
  \<open>r.headers.get(name)\<close> returns (\<open>httpx.Headers\<close> looks names up case-insensitively).
  \<open>client.get\<close> either returns a response or raises an \<open>httpx\<close> exception (transport
  error, timeout, unsupported URL), all subclasses of \<open>Exception\<close>; \<open>body_text\<close> is
  \<open>r.text\<close>.
\<close>

record response =
  status_code :: int
  headers :: "string \<rightharpoonup> string"
  body_text :: string

datatype http_result = Response response | HttpError

section \<open>urllib.robotparser (CPython 3.11)\<close>

text \<open>
  The fields of \<open>RobotFileParser\<close> that \<open>can_fetch\<close> reads. \<open>parsed_text\<close> stands for the
  entries that \<open>parse\<close> builds from the lines of a document.
\<close>

record robot_file_parser =
  disallow_all :: bool
  allow_all :: bool
  last_checked :: nat
  parsed_text :: string

text \<open>\<open>RobotFileParser()\<close>: the constructor.\<close>

definition RobotFileParser :: robot_file_parser where
  "RobotFileParser =
     \<lparr>disallow_all = False, allow_all = False, last_checked = 0, parsed_text = ''''\<rparr>"

text \<open>\<open>rp.parse(lines)\<close>: calls \<open>modified()\<close>, which stores the clock's (positive) time,
  and builds the entries.\<close>

definition parse :: "nat \<Rightarrow> string \<Rightarrow> robot_file_parser \<Rightarrow> robot_file_parser" where
  "parse now txt rp = rp\<lparr>last_checked := Suc now, parsed_text := txt\<rparr>"

section \<open>The environment of a crawl\<close>

text \<open>
  What the crawler calls and this development does not look into:
  \<^item> \<open>client_get n u\<close>: the outcome of the \<open>n\<close>-th request of the run, a \<open>GET\<close> of \<open>u\<close>;
  \<^item> \<open>time_time\<close>: the clock;
  \<^item> \<open>entries_allow t agent u\<close>: the second half of \<open>can_fetch\<close>, the search of the entries
    parsed from the document \<open>t\<close> (it parses \<open>u\<close>, so it may raise);
  \<^item> \<open>extractors html u\<close>: the extraction functions of \<open>extractors.py\<close> (built on
    BeautifulSoup), giving \<open>links\<close>, \<open>next_links\<close> and \<open>images\<close>;
  \<^item> \<open>render_content u\<close>: the headless browser, \<open>None\<close> when it raises;
  \<^item> \<open>should_render_heuristic html\<close>: the regular-expression heuristic of \<open>utils.py\<close>.
\<close>

record extraction =
  links :: "string list"
  next_links :: "string list"
  images :: "string list"

record env =
  client_get :: "nat \<Rightarrow> string \<Rightarrow> http_result"
  time_time :: nat
  entries_allow :: "string \<Rightarrow> string \<Rightarrow> string \<Rightarrow> error + bool"
  extractors :: "string \<Rightarrow> string \<Rightarrow> error + extraction"
  render_content :: "string \<Rightarrow> string option"
  should_render_heuristic :: "string \<Rightarrow> bool"

definition can_fetch :: "env \<Rightarrow> robot_file_parser \<Rightarrow> string \<Rightarrow> string \<Rightarrow> error + bool" where
  "can_fetch e rp useragent u =
     (if disallow_all rp then Inr False
      else if allow_all rp then Inr True
      else if last_checked rp = 0 then Inr False
      else entries_allow e (parsed_text rp) useragent u)"

section \<open>scraper/crawler.py\<close>

record CrawlTask =
  url :: string
  depth :: int

text \<open>The arguments of \<open>AsyncCrawler.__init__\<close> that the crawl logic reads. The two
  concurrency limits are natural numbers: a semaphore cannot be built from a negative
  value.\<close>

record config =
  start_urls :: "string list"
  allowed_domains :: "string list"
  max_pages :: int
  max_depth :: int
  max_concurrency :: nat
  user_agent :: string
  robots_enabled :: bool
  render_mode :: string
  download_images :: bool
  per_host_limit :: nat

text \<open>Where a worker coroutine is suspended: before its first step, in \<open>queue.get()\<close>, in
  the \<open>GET\<close> of the robots document, in the acquisition of the global or of the host's
  semaphore, in the \<open>GET\<close> of the page; or it has left its loop, or died of an exception.\<close>

datatype worker =
    Start
  | Waiting
  | AwaitRobots CrawlTask
  | AwaitGlobal CrawlTask
  | AwaitHost CrawlTask
  | AwaitFetch CrawlTask string
  | Finished
  | Failed error

text \<open>
  The mutable state of an \<open>AsyncCrawler\<close>, with the effects on the outside world written
  into it: \<open>requests\<close> is the list of addresses requested from the HTTP client so far,
  \<open>saved_html\<close> and \<open>saved_images\<close> are the files written by the storage manager, and
  \<open>jsonl\<close> holds the address of every record appended to the record log. The two kinds of
  semaphore are the numbers of permits left. The file system is taken to accept every
  write.
\<close>

record crawler =
  visited :: "string set"
  queue :: "CrawlTask list"
  enqueued :: "string set"
  pages_processed :: int
  robots_parsers :: "string \<rightharpoonup> robot_file_parser"
  global_semaphore :: nat
  per_host_semaphores :: "string \<rightharpoonup> nat"
  requests :: "string list"
  saved_html :: "(string \<times> string) list"
  saved_images :: "string list"
  jsonl :: "string list"
  workers :: "worker list"

text \<open>\<open>await self.client.get(u)\<close>: the request is recorded, the environment answers.\<close>

definition get :: "env \<Rightarrow> string \<Rightarrow> crawler \<Rightarrow> http_result \<times> crawler" where
  "get e u s = (client_get e (length (requests s)) u, s\<lparr>requests := requests s @ [u]\<rparr>)"

subsection \<open>\<open>_robots_allows\<close>\<close>

text \<open>\<open>base = f"{parsed.scheme}://{parsed.netloc}"\<close>.\<close>

definition robots_base :: "string \<Rightarrow> error + string" where
  "robots_base u =
     (case urlparse u '''' of
        Inl err \<Rightarrow> Inl err
      | Inr parsed \<Rightarrow> Inr (scheme parsed @ ''://'' @ netloc parsed))"

text \<open>The body of \<open>if rp is None\<close>: a new parser, the request, and the cache entry. Both
  failure branches assign \<open>False\<close> to \<open>disallow_all\<close>.\<close>

definition robots_fetch :: "env \<Rightarrow> string \<Rightarrow> crawler \<Rightarrow> robot_file_parser \<times> crawler" where
  "robots_fetch e base s =
     (let rp0 = RobotFileParser;
          (r, s1) = get e (base @ ''/robots.txt'') s;
          rp = (case r of
                  Response resp \<Rightarrow>
                    if status_code resp = 200 then parse (time_time e) (body_text resp) rp0
                    else rp0\<lparr>disallow_all := False\<rparr>
                | HttpError \<Rightarrow> rp0\<lparr>disallow_all := False\<rparr>)
      in (rp, s1\<lparr>robots_parsers := (robots_parsers s1)(base \<mapsto> rp)\<rparr>))"

definition robots_allows :: "config \<Rightarrow> env \<Rightarrow> string \<Rightarrow> crawler \<Rightarrow> (error + bool) \<times> crawler" where
  "robots_allows cfg e u s =
     (if \<not> robots_enabled cfg then (Inr True, s)
      else (case robots_base u of
              Inl err \<Rightarrow> (Inl err, s)
            | Inr base \<Rightarrow>
                (case robots_parsers s base of
                   Some rp \<Rightarrow> (can_fetch e rp (user_agent cfg) u, s)
                 | None \<Rightarrow>
                     (let (rp, s1) = robots_fetch e base s
                      in (can_fetch e rp (user_agent cfg) u, s1)))))"

subsection \<open>\<open>_fetch_http\<close>\<close>

text \<open>The content-type test. \<open>lower\<close> leaves characters beyond ASCII alone where Python's
  \<open>str.lower\<close> may change them, but neither pattern can be completed by such a
  character.\<close>

definition is_html :: "string \<Rightarrow> bool" where
  "is_html ct = (contains ct ''text/html'' \<or> startswith ct ''application/xhtml'')"

definition fetch_result :: "http_result \<Rightarrow> (string \<times> string option) option" where
  "fetch_result r =
     (case r of
        HttpError \<Rightarrow> None
      | Response resp \<Rightarrow>
          (let ct = lower (case headers resp ''content-type'' of None \<Rightarrow> '''' | Some v \<Rightarrow> v)
           in if status_code resp = 200 \<and> is_html ct
              then Some (body_text resp, headers resp ''content-disposition'')
              else None))"

definition fetch_http :: "env \<Rightarrow> string \<Rightarrow> crawler \<Rightarrow> (string \<times> string option) option \<times> crawler" where
  "fetch_http e u s = (let (r, s1) = get e u s in (fetch_result r, s1))"

subsection \<open>The render decision of \<open>_handle_task\<close>\<close>

text \<open>From \<open>html, content_disposition = (http_result or (None, None))\<close> to the test
  \<open>if not html\<close>: the document that is processed, if any. The browser exists when the
  render mode is not \<open>never\<close>; an exception of the browser is swallowed.\<close>

definition render_decision ::
  "config \<Rightarrow> env \<Rightarrow> string \<Rightarrow> (string \<times> string option) option \<Rightarrow> string option \<times> string option" where
  "render_decision cfg e u http_result =
     (let (html, content_disposition) =
            (case http_result of None \<Rightarrow> (None, None) | Some (h, cd) \<Rightarrow> (Some h, cd));
          needs_render =
            (render_mode cfg = ''always'' \<or>
             (render_mode cfg = ''auto'' \<and>
              (case html of
                 None \<Rightarrow> True
               | Some h \<Rightarrow> h = [] \<or> should_render_heuristic e h)));
          html1 =
            (if needs_render \<and> render_mode cfg \<noteq> ''never'' then
               (case render_content e u of
                  Some rendered \<Rightarrow> if rendered \<noteq> [] then Some rendered else html
                | None \<Rightarrow> html)
             else html)
      in (html1, content_disposition))"

subsection \<open>\<open>_process_page\<close>\<close>

text \<open>\<open>_download_image\<close>: a saved file when the status is 200 and the body is not empty;
  every exception is swallowed.\<close>

definition download_image :: "env \<Rightarrow> string \<Rightarrow> crawler \<Rightarrow> crawler" where
  "download_image e img s =
     (let (r, s1) = get e img s in
        case r of
          HttpError \<Rightarrow> s1
        | Response resp \<Rightarrow>
            if status_code resp = 200 \<and> body_text resp \<noteq> []
            then s1\<lparr>saved_images := saved_images s1 @ [img]\<rparr>
            else s1)"

text \<open>One round of the loop \<open>for href in links + next_links\<close>: the state after it, or the
  exception that \<open>normalize_url\<close> or \<open>is_allowed_domain\<close> raises.\<close>

definition enqueue_link :: "config \<Rightarrow> string \<Rightarrow> string \<Rightarrow> crawler \<Rightarrow> error + crawler" where
  "enqueue_link cfg u href s =
     (case normalize_url u href of
        Inl err \<Rightarrow> Inl err
      | Inr None \<Rightarrow> Inr s
      | Inr (Some norm) \<Rightarrow>
          if norm = [] then Inr s
          else if norm \<in> enqueued s \<or> norm \<in> visited s then Inr s
          else
            (case is_allowed_domain norm (allowed_domains cfg) of
               Inl err \<Rightarrow> Inl err
             | Inr allowed \<Rightarrow>
                 if \<not> allowed then Inr s
                 else Inr (s\<lparr>queue := queue s @ [\<lparr>url = norm, depth = 1\<rparr>],
                             enqueued := insert norm (enqueued s)\<rparr>)))"

text \<open>The loop: an exception leaves it with the state as it is then.\<close>

fun enqueue_links :: "config \<Rightarrow> string \<Rightarrow> string list \<Rightarrow> crawler \<Rightarrow> error option \<times> crawler" where
  "enqueue_links cfg u [] s = (None, s)"
| "enqueue_links cfg u (href # hrefs) s =
     (case enqueue_link cfg u href s of
        Inl err \<Rightarrow> (Some err, s)
      | Inr s1 \<Rightarrow> enqueue_links cfg u hrefs s1)"

definition process_page ::
  "config \<Rightarrow> env \<Rightarrow> string \<Rightarrow> string \<Rightarrow> string option \<Rightarrow> crawler \<Rightarrow> error option \<times> crawler" where
  "process_page cfg e u html content_disposition s =
     (case extractors e html u of
        Inl err \<Rightarrow> (Some err, s)
      | Inr x \<Rightarrow>
          (let s1 = s\<lparr>saved_html := saved_html s @ [(u, html)]\<rparr>;
               s2 = (if download_images cfg then fold (download_image e) (images x) s1 else s1);
               s3 = s2\<lparr>jsonl := jsonl s2 @ [u]\<rparr>
           in enqueue_links cfg u (links x @ next_links x) s3))"

subsection \<open>\<open>_handle_task\<close>\<close>

text \<open>The first four tests of \<open>_handle_task\<close>: page budget, visited, depth, allowlist.\<close>

definition passes_checks :: "config \<Rightarrow> CrawlTask \<Rightarrow> crawler \<Rightarrow> error + bool" where
  "passes_checks cfg task s =
     (if pages_processed s \<ge> max_pages cfg then Inr False
      else if url task \<in> visited s then Inr False
      else if depth task > max_depth cfg then Inr False
      else is_allowed_domain (url task) (allowed_domains cfg))"

text \<open>\<open>Semaphore.acquire\<close>: \<open>None\<close> when no permit is left and the caller has to wait.\<close>

definition acquire_global :: "crawler \<Rightarrow> crawler option" where
  "acquire_global s =
     (if global_semaphore s = 0 then None
      else Some (s\<lparr>global_semaphore := global_semaphore s - 1\<rparr>))"

text \<open>\<open>_host_semaphore\<close>: the key of the host and the state with its semaphore created.\<close>

definition host_semaphore :: "config \<Rightarrow> string \<Rightarrow> crawler \<Rightarrow> error + (string \<times> crawler)" where
  "host_semaphore cfg u s =
     (case urlparse u '''' of
        Inl err \<Rightarrow> Inl err
      | Inr parsed \<Rightarrow>
          (let host = netloc parsed in
             case per_host_semaphores s host of
               Some n \<Rightarrow> Inr (host, s)
             | None \<Rightarrow>
                 Inr (host, s\<lparr>per_host_semaphores :=
                                 (per_host_semaphores s)(host \<mapsto> per_host_limit cfg)\<rparr>)))"

definition acquire_host :: "string \<Rightarrow> crawler \<Rightarrow> crawler option" where
  "acquire_host host s =
     (case per_host_semaphores s host of
        None \<Rightarrow> None
      | Some n \<Rightarrow>
          if n = 0 then None
          else Some (s\<lparr>per_host_semaphores := (per_host_semaphores s)(host \<mapsto> n - 1)\<rparr>))"

text \<open>The \<open>finally\<close> block: both permits are given back.\<close>

definition release :: "string \<Rightarrow> crawler \<Rightarrow> crawler" where
  "release host s =
     s\<lparr>per_host_semaphores :=
          (case per_host_semaphores s host of
             None \<Rightarrow> per_host_semaphores s
           | Some n \<Rightarrow> (per_host_semaphores s)(host \<mapsto> Suc n)),
        global_semaphore := Suc (global_semaphore s)\<rparr>"

text \<open>The \<open>try\<close> block with its \<open>finally\<close>: fetch, render decision, page processing and the
  increment of the counter. (The optional \<open>asyncio.sleep\<close> changes no state.)\<close>

definition fetch_and_process ::
  "config \<Rightarrow> env \<Rightarrow> CrawlTask \<Rightarrow> string \<Rightarrow> crawler \<Rightarrow> error option \<times> crawler" where
  "fetch_and_process cfg e task host s =
     (let (http_result, s1) = fetch_http e (url task) s;
          (html, content_disposition) = render_decision cfg e (url task) http_result;
          (r, s2) =
            (case html of
               None \<Rightarrow> (None, s1)
             | Some h \<Rightarrow>
                 if h = [] then (None, s1)
                 else
                   (case process_page cfg e (url task) h content_disposition s1 of
                      (Some err, s') \<Rightarrow> (Some err, s')
                    | (None, s') \<Rightarrow> (None, s'\<lparr>pages_processed := pages_processed s' + 1\<rparr>)))
      in (r, release host s2))"

text \<open>How a call of \<open>_handle_task\<close> that no other coroutine interleaves with ends: it
  returns, it raises, or it waits for a permit that nobody gives back.\<close>

datatype outcome = Returned | Raised error | Blocked

definition after_global :: "config \<Rightarrow> env \<Rightarrow> CrawlTask \<Rightarrow> crawler \<Rightarrow> outcome \<times> crawler" where
  "after_global cfg e task s =
     (case host_semaphore cfg (url task) s of
        Inl err \<Rightarrow> (Raised err, s)
      | Inr (host, s1) \<Rightarrow>
          (case acquire_host host s1 of
             None \<Rightarrow> (Blocked, s1)
           | Some s2 \<Rightarrow>
               (case fetch_and_process cfg e task host s2 of
                  (Some err, s3) \<Rightarrow> (Raised err, s3)
                | (None, s3) \<Rightarrow> (Returned, s3))))"

definition after_robots :: "config \<Rightarrow> env \<Rightarrow> CrawlTask \<Rightarrow> crawler \<Rightarrow> outcome \<times> crawler" where
  "after_robots cfg e task s =
     (let s1 = s\<lparr>visited := insert (url task) (visited s)\<rparr> in
        case acquire_global s1 of
          None \<Rightarrow> (Blocked, s1)
        | Some s2 \<Rightarrow> after_global cfg e task s2)"

definition handle_task :: "config \<Rightarrow> env \<Rightarrow> CrawlTask \<Rightarrow> crawler \<Rightarrow> outcome \<times> crawler" where
  "handle_task cfg e task s =
     (case passes_checks cfg task s of
        Inl err \<Rightarrow> (Raised err, s)
      | Inr False \<Rightarrow> (Returned, s)
      | Inr True \<Rightarrow>
          (case robots_allows cfg e (url task) s of
             (Inl err, s1) \<Rightarrow> (Raised err, s1)
           | (Inr False, s1) \<Rightarrow> (Returned, s1)
           | (Inr True, s1) \<Rightarrow> after_robots cfg e task s1))"

subsection \<open>\<open>run\<close> and its workers\<close>

text \<open>
  The workers are coroutines of one event loop: a worker runs alone from one suspension to
  the next, and the scheduler picks which worker continues. \<open>resume\<close> runs one worker from
  the place where it is suspended to its next suspension. The suspensions of the model are
  those of the \<open>worker\<close> type; at the other \<open>await\<close>s of the source (the optional sleep,
  the browser, the storage manager, the image downloads) the model lets the same worker
  continue, which is one of the orders the event loop may choose. A worker that waits for a
  semaphore tries again when it is resumed.
\<close>

text \<open>The test of \<open>while self.pages_processed < self.max_pages\<close>, followed by the call of
  \<open>queue.get()\<close>.\<close>

definition loop_head :: "config \<Rightarrow> crawler \<Rightarrow> worker" where
  "loop_head cfg s = (if pages_processed s < max_pages cfg then Waiting else Finished)"

definition enter_host :: "config \<Rightarrow> CrawlTask \<Rightarrow> crawler \<Rightarrow> worker \<times> crawler" where
  "enter_host cfg task s =
     (case host_semaphore cfg (url task) s of
        Inl err \<Rightarrow> (Failed err, s)
      | Inr (host, s1) \<Rightarrow>
          (case acquire_host host s1 of
             None \<Rightarrow> (AwaitHost task, s1)
           | Some s2 \<Rightarrow> (AwaitFetch task host, s2)))"

definition enter_global :: "config \<Rightarrow> CrawlTask \<Rightarrow> crawler \<Rightarrow> worker \<times> crawler" where
  "enter_global cfg task s =
     (case acquire_global s of
        None \<Rightarrow> (AwaitGlobal task, s)
      | Some s1 \<Rightarrow> enter_host cfg task s1)"

text \<open>The answer of the politeness check is there: the task is dropped, or marked visited
  and taken to the semaphores.\<close>

definition robots_answer :: "config \<Rightarrow> CrawlTask \<Rightarrow> (error + bool) \<times> crawler \<Rightarrow> worker \<times> crawler" where
  "robots_answer cfg task r =
     (case r of
        (Inl err, s1) \<Rightarrow> (Failed err, s1)
      | (Inr False, s1) \<Rightarrow> (loop_head cfg s1, s1)
      | (Inr True, s1) \<Rightarrow>
          enter_global cfg task (s1\<lparr>visited := insert (url task) (visited s1)\<rparr>))"

text \<open>Whether \<open>_robots_allows\<close> has to request the robots document of the task's origin.\<close>

definition robots_pending :: "config \<Rightarrow> CrawlTask \<Rightarrow> crawler \<Rightarrow> bool" where
  "robots_pending cfg task s =
     (robots_enabled cfg \<and>
      (case robots_base (url task) of
         Inl err \<Rightarrow> False
       | Inr base \<Rightarrow> robots_parsers s base = None))"

text \<open>A task has been taken off the queue: \<open>_handle_task\<close> up to its first suspension.\<close>

definition begin_task :: "config \<Rightarrow> env \<Rightarrow> CrawlTask \<Rightarrow> crawler \<Rightarrow> worker \<times> crawler" where
  "begin_task cfg e task s =
     (case passes_checks cfg task s of
        Inl err \<Rightarrow> (Failed err, s)
      | Inr False \<Rightarrow> (loop_head cfg s, s)
      | Inr True \<Rightarrow>
          if robots_pending cfg task s then (AwaitRobots task, s)
          else robots_answer cfg task (robots_allows cfg e (url task) s))"

fun resume :: "config \<Rightarrow> env \<Rightarrow> worker \<Rightarrow> crawler \<Rightarrow> worker \<times> crawler" where
  "resume cfg e Start s = (loop_head cfg s, s)"
| "resume cfg e Waiting s =
     (case queue s of
        [] \<Rightarrow> (if pages_processed s \<ge> max_pages cfg then Finished else loop_head cfg s, s)
      | task # rest \<Rightarrow> begin_task cfg e task (s\<lparr>queue := rest\<rparr>))"
| "resume cfg e (AwaitRobots task) s =
     (case robots_base (url task) of
        Inl err \<Rightarrow> (Failed err, s)
      | Inr base \<Rightarrow>
          (let (rp, s1) = robots_fetch e base s
           in robots_answer cfg task (can_fetch e rp (user_agent cfg) (url task), s1)))"
| "resume cfg e (AwaitGlobal task) s = enter_global cfg task s"
| "resume cfg e (AwaitHost task) s = enter_host cfg task s"
| "resume cfg e (AwaitFetch task host) s =
     (case fetch_and_process cfg e task host s of
        (Some err, s1) \<Rightarrow> (Failed err, s1)
      | (None, s1) \<Rightarrow> (loop_head cfg s1, s1))"
| "resume cfg e Finished s = (Finished, s)"
| "resume cfg e (Failed err) s = (Failed err, s)"

text \<open>The state that \<open>__init__\<close> builds.\<close>

definition init :: "config \<Rightarrow> crawler" where
  "init cfg =
     \<lparr>visited = {}, queue = [], enqueued = {}, pages_processed = 0,
      robots_parsers = Map.empty, global_semaphore = max_concurrency cfg,
      per_host_semaphores = Map.empty, requests = [], saved_html = [], saved_images = [],
      jsonl = [], workers = []\<rparr>"

text \<open>The body of \<open>for url in self.start_urls\<close> in \<open>run\<close>.\<close>

definition seed :: "string \<Rightarrow> crawler \<Rightarrow> crawler" where
  "seed u s = s\<lparr>enqueued := insert u (enqueued s), queue := queue s @ [\<lparr>url = u, depth = 0\<rparr>]\<rparr>"

definition num_workers :: "config \<Rightarrow> nat" where
  "num_workers cfg = max 2 (min 32 (max_concurrency cfg))"

text \<open>\<open>run\<close> up to the creation of the workers.\<close>

definition run_start :: "config \<Rightarrow> crawler" where
  "run_start cfg =
     (fold seed (start_urls cfg) (init cfg))\<lparr>workers := replicate (num_workers cfg) Start\<rparr>"

text \<open>The scheduler lets worker \<open>i\<close> continue.\<close>

definition step :: "config \<Rightarrow> env \<Rightarrow> nat \<Rightarrow> crawler \<Rightarrow> crawler" where
  "step cfg e i s =
     (if i < length (workers s) then
        (let (w, s1) = resume cfg e (workers s ! i) s
         in s1\<lparr>workers := (workers s1)[i := w]\<rparr>)
      else s)"

text \<open>The state of the crawl after the scheduler has let the workers of \<open>schedule\<close>
  continue, in that order.\<close>

definition run_schedule :: "config \<Rightarrow> env \<Rightarrow> nat list \<Rightarrow> crawler" where
  "run_schedule cfg e schedule = fold (step cfg e) schedule (run_start cfg)"

subsection \<open>Concrete crawls\<close>

text \<open>The default arguments of \<open>AsyncCrawler.__init__\<close> and of the command line.\<close>

definition default_config :: "string list \<Rightarrow> config" where
  "default_config seeds =
     \<lparr>start_urls = seeds, allowed_domains = [], max_pages = 200, max_depth = 5,
      max_concurrency = 8,
      user_agent = ''Mozilla/5.0 (compatible; SiteScraper/1.0; +https://example.com/bot)'',
      robots_enabled = True, render_mode = ''auto'', download_images = True,
      per_host_limit = 4\<rparr>"

text \<open>An environment in which every request fails and no page has links.\<close>

definition offline_env :: env where
  "offline_env =
     \<lparr>client_get = (\<lambda>n a. HttpError), time_time = 0,
      entries_allow = (\<lambda>t agent a. Inr True),
      extractors = (\<lambda>html a. Inr \<lparr>links = [], next_links = [], images = []\<rparr>),
      render_content = (\<lambda>a. None), should_render_heuristic = (\<lambda>html. False)\<rparr>"

definition html_page :: response where
  "html_page =
     \<lparr>status_code = 200, headers = [''content-type'' \<mapsto> ''text/html; charset=utf-8''],
      body_text = ''<html><body>Hello</body></html>''\<rparr>"

text \<open>An environment in which every request is answered by the same HTML page.\<close>

definition online_env :: env where
  "online_env = offline_env\<lparr>client_get := (\<lambda>n a. Response html_page)\<rparr>"

text \<open>An environment in which every page links to \<open>/b\<close> and to its parent directory.\<close>

definition linked_env :: env where
  "linked_env =
     online_env\<lparr>extractors := (\<lambda>html a. Inr \<lparr>links = [''/b'', ''..''], next_links = [''/b''],
                                             images = []\<rparr>)\<rparr>"

text \<open>A crawl of two pages with a budget of one page, without robots check, rendering and
  image download.\<close>

definition budget_config :: config where
  "budget_config =
     (default_config [''http://a.com/1'', ''http://a.com/2''])
       \<lparr>max_pages := 1, robots_enabled := False, render_mode := ''never'',
        download_images := False\<rparr>"

text \<open>A crawl in which every request is answered with status 200 and a plain-text content
  type that carries the text \<open>text/html\<close> in a parameter.\<close>

definition plain_page :: response where
  "plain_page =
     \<lparr>status_code = 200, headers = [''content-type'' \<mapsto> ''text/plain; x=text/html''],
      body_text = ''hello''\<rparr>"

definition plain_env :: env where
  "plain_env = offline_env\<lparr>client_get := (\<lambda>n a. Response plain_page)\<rparr>"

subsection \<open>The content type as the specification names it\<close>

text \<open>
  Following the specification's words ``HTML content type'', not the code: the media type
  of a \<open>Content-Type\<close> value is the text before the first \<open>;\<close>, without surrounding blanks,
  in lower case; it is an HTML content type when it is \<open>text/html\<close> or
  \<open>application/xhtml+xml\<close>.
\<close>

definition spec_media_type :: "string \<Rightarrow> string" where
  "spec_media_type ct = lower (strip_c0 (takeWhile (\<lambda>c. c \<noteq> CHR '';'') ct))"

definition spec_html_content_type :: "string \<Rightarrow> bool" where
  "spec_html_content_type ct =
     (spec_media_type ct = ''text/html'' \<or> spec_media_type ct = ''application/xhtml+xml'')"

section \<open>Auxiliary notions for the proofs about addresses\<close>









text \<open>Text that \<open>urlsplit\<close> leaves as it is: ASCII without tab, carriage return and line
  feed.\<close>

definition clean :: "string \<Rightarrow> bool" where
  "clean s = (isascii s \<and> list_all (\<lambda>c. \<not> unsafe_url_byte c) s)"







section \<open>Properties of the URL functions\<close>

text \<open>
  Claim C6. \<open>normalize_url\<close> applied to the base \<open>http://x.com/a\<close> and the reference
  \<open>/b?utm_source=x#frag\<close> returns exactly \<open>http://x.com/b\<close>: the reference is resolved
  against the base, the fragment is removed and the tracking parameter is stripped.
\<close>

theorem normalize_url_example:
  "normalize_url ''http://x.com/a'' ''/b?utm_source=x#frag'' = Inr (Some ''http://x.com/b'')"
  by code_simp

text \<open>
  Claim C10. With an empty allowlist \<open>is_allowed_domain\<close> returns true for every URL (the
  URL is not even parsed), so the allowlist restricts the crawl only when it is not empty.
\<close>

theorem empty_allowlist_allows_all: "is_allowed_domain u [] = Inr True"
  by (simp add: is_allowed_domain_def)








subsection \<open>Normalising a normalised address\<close>



















































lemma clean_append: "clean (a @ b) = (clean a \<and> clean b)"
  by (auto simp add: clean_def isascii_def)

lemma ord_lower_char: "ord (lower_char c) = (if 65 \<le> ord c \<and> ord c \<le> 90 then ord c + 32 else ord c)"
  by (simp add: lower_char_def ord_def)

lemma lower_char_other: "\<not> (65 \<le> ord c \<and> ord c \<le> 90) \<Longrightarrow> lower_char c = c"
  by (auto simp add: lower_char_def)

lemma lower_char_idem: "lower_char (lower_char c) = lower_char c"
proof (cases "65 \<le> ord c \<and> ord c \<le> 90")
  case True
  then have "\<not> (65 \<le> ord (lower_char c) \<and> ord (lower_char c) \<le> 90)"
    by (simp add: ord_lower_char)
  then show ?thesis by (rule lower_char_other)
next
  case False
  then show ?thesis by (simp add: lower_char_other)
qed

lemma lower_idem: "lower (lower s) = lower s"
  by (simp add: lower_def lower_char_idem)




























section \<open>Properties of the crawler\<close>

lemma startswith_prefix: "startswith s p = prefix p s"
proof
  assume "startswith s p"
  then have "s = p @ drop (length p) s" unfolding startswith_def by (metis append_take_drop_id)
  then show "prefix p s" by (metis prefixI)
next
  assume "prefix p s"
  then show "startswith s p" by (auto simp add: startswith_def prefix_def)
qed

lemma contains_sublist: "contains s sub = sublist sub s"
  by (induction s) (simp_all add: sublist_Cons_right startswith_prefix)

text \<open>
  Claim C9, as stated, at a response with status 200 and the content type
  \<open>text/plain; x=text/html\<close>: its media type is \<open>text/plain\<close>, not an HTML content type, and
  \<open>_fetch_http\<close> returns its text as document content, because the code looks for the text
  \<open>text/html\<close> anywhere in the header value.
\<close>

theorem fetch_http_plain_text_counterexample:
  "fst (fetch_http plain_env ''http://a.com/notes.txt'' (init (default_config []))) =
     Some (''hello'', None) \<and>
   status_code plain_page = 200 \<and>
   headers plain_page ''content-type'' = Some ''text/plain; x=text/html'' \<and>
   spec_media_type ''text/plain; x=text/html'' = ''text/plain'' \<and>
   \<not> spec_html_content_type ''text/plain; x=text/html''"
  by code_simp

text \<open>
  Claim C9, amended. \<open>_fetch_http\<close> returns document content exactly for a response with
  status 200 whose \<open>Content-Type\<close> value (the empty text when the header is missing), in
  lower case, contains the text \<open>text/html\<close> somewhere or begins with \<open>application/xhtml\<close>,
  then the text and the content disposition of that response; for every other outcome
  (another status, another content type, an exception of the client) it returns \<open>None\<close>.
  It has no exceptional result: every exception of the request is a \<open>None\<close>.
\<close>

theorem fetch_http_content_type_test:
  "(fst (fetch_http e u s) = Some (t, cd)) =
     (\<exists>resp. client_get e (length (requests s)) u = Response resp \<and>
        status_code resp = 200 \<and>
        (sublist ''text/html''
           (lower (case headers resp ''content-type'' of None \<Rightarrow> '''' | Some v \<Rightarrow> v)) \<or>
         prefix ''application/xhtml''
           (lower (case headers resp ''content-type'' of None \<Rightarrow> '''' | Some v \<Rightarrow> v))) \<and>
        t = body_text resp \<and> cd = headers resp ''content-disposition'')"
  by (auto simp add: fetch_http_def get_def fetch_result_def is_html_def contains_sublist
      startswith_prefix Let_def split: http_result.splits)

text \<open>
  Claim C4. Handling a task whose depth is strictly greater than \<open>max_depth\<close> is a no-op:
  \<open>_handle_task\<close> returns with the state of the crawler unchanged (no request, no address
  marked visited, no record), and the worker that took the task goes back to the head of
  its loop.
\<close>

theorem deep_task_is_noop:
  assumes "depth task > max_depth cfg"
  shows "handle_task cfg e task s = (Returned, s) \<and>
         begin_task cfg e task s = (loop_head cfg s, s)"
  using assms by (simp add: handle_task_def begin_task_def passes_checks_def)

text \<open>Claim C4 at a task of depth 6 with the default maximal depth 5.\<close>

theorem deep_task_is_noop_witness:
  "depth \<lparr>url = ''http://a.com/1'', depth = 6\<rparr> > max_depth (default_config []) \<and>
   handle_task (default_config []) online_env \<lparr>url = ''http://a.com/1'', depth = 6\<rparr>
     (init (default_config [])) = (Returned, init (default_config []))"
proof -
  have h: "depth \<lparr>url = ''http://a.com/1'', depth = 6\<rparr> > max_depth (default_config [])"
    by (simp add: default_config_def)
  show ?thesis using h deep_task_is_noop [OF h] by simp
qed

text \<open>The loop over the discovered links does look into the enqueued set: a round of it
  pushes nothing, or one address that is neither enqueued nor visited, and adds it to the
  enqueued set.\<close>

lemma enqueue_link_checks_enqueued:
  "enqueue_link cfg u href s = Inr s1 \<Longrightarrow>
     s1 = s \<or>
     (\<exists>norm. norm \<notin> enqueued s \<and> norm \<notin> visited s \<and>
        s1 = s\<lparr>queue := queue s @ [\<lparr>url = norm, depth = 1\<rparr>],
               enqueued := insert norm (enqueued s)\<rparr>)"
  by (auto simp add: enqueue_link_def split: sum.splits option.splits if_splits)

lemma enqueue_link_queue:
  "enqueue_link cfg u href s = Inr s1 \<Longrightarrow>
     \<exists>new. queue s1 = queue s @ new \<and> (\<forall>t\<in>set new. depth t = 1)"
  by (auto simp add: enqueue_link_def split: sum.splits option.splits if_splits)

lemma enqueue_links_depth:
  "enqueue_links cfg u hrefs s = (r, s') \<Longrightarrow>
     \<exists>new. queue s' = queue s @ new \<and> (\<forall>t\<in>set new. depth t = 1)"
proof (induction hrefs arbitrary: s)
  case Nil
  then show ?case by simp
next
  case (Cons href hrefs)
  show ?case
  proof (cases "enqueue_link cfg u href s")
    case (Inl err)
    with Cons.prems show ?thesis by simp
  next
    case (Inr s1)
    with Cons.prems have "enqueue_links cfg u hrefs s1 = (r, s')" by simp
    from Cons.IH[OF this] obtain new2 where
      n2: "queue s' = queue s1 @ new2" "\<forall>t\<in>set new2. depth t = 1" by blast
    from enqueue_link_queue[OF Inr] obtain new1 where
      n1: "queue s1 = queue s @ new1" "\<forall>t\<in>set new1. depth t = 1" by blast
    from n1 n2 have "queue s' = queue s @ (new1 @ new2) \<and> (\<forall>t\<in>set (new1 @ new2). depth t = 1)"
      by auto
    then show ?thesis by blast
  qed
qed

lemma fold_download_image_queue: "queue (fold (download_image e) imgs s) = queue s"
  by (induction imgs arbitrary: s)
     (auto simp add: download_image_def get_def Let_def split: http_result.splits)

lemma process_page_depth:
  assumes "process_page cfg e u html cd s = (r, s')"
  shows "\<exists>new. queue s' = queue s @ new \<and> (\<forall>t\<in>set new. depth t = 1)"
proof (cases "extractors e html u")
  case (Inl err)
  with assms show ?thesis by (simp add: process_page_def)
next
  case (Inr x)
  define s2 where "s2 = (if download_images cfg
      then fold (download_image e) (images x) (s\<lparr>saved_html := saved_html s @ [(u, html)]\<rparr>)
      else s\<lparr>saved_html := saved_html s @ [(u, html)]\<rparr>)"
  from assms Inr have "enqueue_links cfg u (links x @ next_links x) (s2\<lparr>jsonl := jsonl s2 @ [u]\<rparr>) = (r, s')"
    by (simp add: process_page_def Let_def s2_def)
  from enqueue_links_depth[OF this]
  have "\<exists>new. queue s' = queue (s2\<lparr>jsonl := jsonl s2 @ [u]\<rparr>) @ new \<and> (\<forall>t\<in>set new. depth t = 1)" .
  moreover have "queue (s2\<lparr>jsonl := jsonl s2 @ [u]\<rparr>) = queue s"
    by (simp add: s2_def fold_download_image_queue)
  ultimately show ?thesis by simp
qed

lemma fold_seed_queue: "queue (fold seed us s) = queue s @ map (\<lambda>a. \<lparr>url = a, depth = 0\<rparr>) us"
  by (induction us arbitrary: s) (simp_all add: seed_def)

text \<open>
  Claim C5. Every task that \<open>_process_page\<close> pushes onto the queue for a discovered link
  (outbound or pagination hint) has depth 1, whatever the depth of the page it was found
  on (which \<open>_process_page\<close> does not even receive); the tasks that \<open>run\<close> pushes for the
  seeds are the only ones of depth 0.
\<close>

theorem discovered_links_depth_one:
  "(\<exists>new. queue (snd (process_page cfg e u html cd s)) = queue s @ new \<and>
          (\<forall>t\<in>set new. depth t = 1)) \<and>
   queue (run_start cfg) = map (\<lambda>a. \<lparr>url = a, depth = 0\<rparr>) (start_urls cfg)"
proof
  show "\<exists>new. queue (snd (process_page cfg e u html cd s)) = queue s @ new \<and>
          (\<forall>t\<in>set new. depth t = 1)"
    using process_page_depth [of cfg e u html cd s] by (cases "process_page cfg e u html cd s") simp
  show "queue (run_start cfg) = map (\<lambda>a. \<lparr>url = a, depth = 0\<rparr>) (start_urls cfg)"
    by (simp add: run_start_def fold_seed_queue init_def)
qed

text \<open>Claim C5 at a page of depth 0 with links to \<open>/b\<close> and to its parent directory: two
  tasks of depth 1 are pushed behind the task that was in the queue.\<close>

theorem discovered_links_depth_one_witness:
  "queue (snd (process_page (default_config []) linked_env ''http://a.com/x/y'' ''<html>'' None
       (run_start (default_config [''http://a.com/x/y''])))) =
     [\<lparr>url = ''http://a.com/x/y'', depth = 0\<rparr>, \<lparr>url = ''http://a.com/b'', depth = 1\<rparr>,
      \<lparr>url = ''http://a.com/'', depth = 1\<rparr>]"
proof -
  have ev: "queue (snd (process_page (default_config []) linked_env ''http://a.com/x/y'' ''<html>''
       None (run_start (default_config [''http://a.com/x/y''])))) =
     [\<lparr>url = ''http://a.com/x/y'', depth = 0\<rparr>, \<lparr>url = ''http://a.com/b'', depth = 1\<rparr>,
      \<lparr>url = ''http://a.com/'', depth = 1\<rparr>]"
    by code_simp
  show ?thesis
    using discovered_links_depth_one [of "default_config []" linked_env "''http://a.com/x/y''"
      "''<html>''" None "run_start (default_config [''http://a.com/x/y''])"] ev
    by simp
qed

text \<open>
  Claim C1 says that the politeness check answers true for every address of an origin whose
  robots document cannot be retrieved or comes with a status other than 200. The code
  answers false: in both failure branches it assigns \<open>False\<close> to \<open>disallow_all\<close>, which is
  \<open>False\<close> already, and leaves \<open>allow_all\<close> and \<open>last_checked\<close> as the constructor set them,
  so that \<open>can_fetch\<close> stops at its test of \<open>last_checked\<close>. The parser that is cached for the
  origin denies every address to every agent.
\<close>

theorem robots_failure_denies:
  assumes "robots_enabled cfg" and "robots_base u = Inr base"
    and "robots_parsers s base = None"
    and "case client_get e (length (requests s)) (base @ ''/robots.txt'') of
           HttpError \<Rightarrow> True
         | Response resp \<Rightarrow> status_code resp \<noteq> 200"
  shows "fst (robots_allows cfg e u s) = Inr False \<and>
         (\<exists>rp. robots_parsers (snd (robots_allows cfg e u s)) base = Some rp \<and>
               (\<forall>agent a. can_fetch e rp agent a = Inr False))"
  using assms
  by (auto simp add: robots_allows_def robots_fetch_def get_def can_fetch_def
        RobotFileParser_def Let_def split: http_result.splits)

text \<open>Claim C1 at the address \<open>http://x.com/public\<close> of the specification, with the default
  configuration and a network on which every request fails.\<close>

theorem robots_failure_denies_witness:
  "robots_enabled (default_config []) \<and>
   robots_base ''http://x.com/public'' = Inr ''http://x.com'' \<and>
   robots_parsers (init (default_config [])) ''http://x.com'' = None \<and>
   client_get offline_env (length (requests (init (default_config []))))
     (''http://x.com'' @ ''/robots.txt'') = HttpError \<and>
   fst (robots_allows (default_config []) offline_env ''http://x.com/public''
          (init (default_config []))) = Inr False"
proof -
  have h1: "robots_enabled (default_config [])" by (simp add: default_config_def)
  have h2: "robots_base ''http://x.com/public'' = Inr ''http://x.com''" by code_simp
  have h3: "robots_parsers (init (default_config [])) ''http://x.com'' = None"
    by (simp add: init_def)
  have h4: "client_get offline_env (length (requests (init (default_config []))))
     (''http://x.com'' @ ''/robots.txt'') = HttpError"
    by (simp add: offline_env_def)
  have h4': "case client_get offline_env (length (requests (init (default_config []))))
       (''http://x.com'' @ ''/robots.txt'') of
           HttpError \<Rightarrow> True
         | Response resp \<Rightarrow> status_code resp \<noteq> 200"
    by (simp add: offline_env_def)
  show ?thesis
    using h1 h2 h3 h4 robots_failure_denies [OF h1 h2 h3 h4'] by simp
qed

text \<open>
  Claim C2 says that an address is placed on the queue at most once, seeds being pushed
  only when they are not in the enqueued set. The loop over the seeds in \<open>run\<close> adds each
  seed to the set and pushes it without looking into the set: a seed given twice is on the
  queue twice.
\<close>

theorem duplicate_seed_enqueued_twice:
  "queue (run_start (default_config [''http://a.com/'', ''http://a.com/''])) =
     [\<lparr>url = ''http://a.com/'', depth = 0\<rparr>, \<lparr>url = ''http://a.com/'', depth = 0\<rparr>]"
  by (simp add: run_start_def init_def seed_def default_config_def)

text \<open>
  Claim C3 says that \<open>pages_processed\<close> never exceeds \<open>max_pages\<close>. The budget is tested when
  a task is taken, and the counter is incremented after the page has been fetched and
  processed, with suspensions in between: with a budget of one page and two seeds, two
  workers both pass the test and both process their page. In the run below the eight
  workers start and wait for the queue, workers 0 and 1 each take a task and go as far as
  the request of their page, then each of the two gets its answer and processes the page.
\<close>

theorem page_budget_overrun:
  "max_pages budget_config = 1 \<and>
   pages_processed
     (run_schedule budget_config online_env [0, 1, 2, 3, 4, 5, 6, 7, 0, 1, 0, 1]) = 2 \<and>
   jsonl (run_schedule budget_config online_env [0, 1, 2, 3, 4, 5, 6, 7, 0, 1, 0, 1]) =
     [''http://a.com/1'', ''http://a.com/2'']"
  by code_simp

text \<open>The part of claim C3 that holds: once the budget is reached, a task that is taken
  off the queue is dropped with the state unchanged.\<close>

lemma budget_reached_noop:
  assumes "pages_processed s \<ge> max_pages cfg"
  shows "handle_task cfg e task s = (Returned, s) \<and> begin_task cfg e task s = (Finished, s)"
  using assms by (simp add: handle_task_def begin_task_def passes_checks_def loop_head_def)

end
